theory Spec2Isabelle
  imports Main
begin

section \<open>Python values and exceptions\<close>

text \<open>
  The payloads handled by \<open>readthedocs/oauth/services/github.py\<close> are whatever
  \<open>resp.json()\<close> returns: arbitrary JSON values. A JSON object is an association list;
  a lookup takes the first binding of a key. JSON numbers are modelled by integers: every
  operation the service applies to a number (subscripting, iteration, attribute access,
  truth test) treats all numbers alike.
\<close>

datatype json =
    JNull
  | JBool bool
  | JInt int
  | JStr string
  | JList "json list"
  | JDict "(string \<times> json) list"

datatype exn =
    TypeError
  | ValueError
  | KeyError string
  | AttributeError
  | RequestException
  | MultipleObjectsReturned
  | Exception string

datatype 'a result = Return 'a | Raise exn

definition rbind :: "'a result \<Rightarrow> ('a \<Rightarrow> 'b result) \<Rightarrow> 'b result" where
  "rbind m f = (case m of Raise e \<Rightarrow> Raise e | Return x \<Rightarrow> f x)"

text \<open>\<open>fields[key]\<close>: a missing key of a dict raises KeyError; every other JSON value
  indexed by a string raises TypeError.\<close>

definition subscript :: "json \<Rightarrow> string \<Rightarrow> json result" where
  "subscript payload key =
     (case payload of
        JDict kvs \<Rightarrow> (case map_of kvs key of None \<Rightarrow> Raise (KeyError key) | Some v \<Rightarrow> Return v)
      | _ \<Rightarrow> Raise TypeError)"

text \<open>\<open>fields.get(key, default)\<close>: only a dict has the method \<open>get\<close>. (The source's parameter \<open>fields\<close> is written \<open>payload\<close> throughout.)\<close>

definition dict_get :: "json \<Rightarrow> string \<Rightarrow> json \<Rightarrow> json result" where
  "dict_get payload key dflt =
     (case payload of
        JDict kvs \<Rightarrow> (case map_of kvs key of None \<Rightarrow> Return dflt | Some v \<Rightarrow> Return v)
      | _ \<Rightarrow> Raise AttributeError)"

text \<open>Python's truth test.\<close>

fun truthy :: "json \<Rightarrow> bool" where
  "truthy JNull = False"
| "truthy (JBool b) = b"
| "truthy (JInt n) = (n \<noteq> 0)"
| "truthy (JStr s) = (s \<noteq> [])"
| "truthy (JList xs) = (xs \<noteq> [])"
| "truthy (JDict kvs) = (kvs \<noteq> [])"

text \<open>Iteration (\<open>for x in v\<close>, \<open>list.extend(v)\<close>): a list gives its elements, a dict its
  keys, a string its characters; null, booleans and numbers are not iterable.\<close>

fun py_iter :: "json \<Rightarrow> json list result" where
  "py_iter (JList xs) = Return xs"
| "py_iter (JDict kvs) = Return (map (\<lambda>kv. JStr (fst kv)) kvs)"
| "py_iter (JStr s) = Return (map (\<lambda>c. JStr [c]) s)"
| "py_iter JNull = Raise TypeError"
| "py_iter (JBool b) = Raise TypeError"
| "py_iter (JInt n) = Raise TypeError"

section \<open>Stored records, log and requests\<close>

text \<open>
  Modelled from the spec: the model classes \<open>RemoteRepository\<close> and
  \<open>RemoteOrganization\<close> (\<open>readthedocs/oauth/models.py\<close>) are not part of the sources
  at hand. The records carry the attributes the spec lists and the service assigns; an
  attribute holds whatever value the service assigns to it. A row has a primary key; the
  organization of a repository is a foreign key, compared by primary key; \<open>users\<close> is the
  many-to-many set of local users. A freshly created row has null attributes apart from
  the ones given to \<open>objects.create\<close>. The attribute \<open>json\<close> holds the payload itself
  instead of its serialisation by \<open>json.dumps\<close>.
\<close>

record remote_organization =
  org_pk :: nat
  org_slug :: json
  org_users :: "nat list"
  org_account :: nat
  org_url :: json
  org_name :: json
  org_email :: json
  org_avatar_url :: json
  org_json :: json

record remote_repository =
  repo_pk :: nat
  repo_full_name :: json
  repo_users :: "nat list"
  repo_account :: nat
  repo_organization :: "nat option"
  repo_name :: json
  repo_description :: json
  repo_ssh_url :: json
  repo_html_url :: json
  repo_private :: json
  repo_clone_url :: json
  repo_admin :: json
  repo_vcs :: string
  repo_avatar_url :: json
  repo_json :: json

datatype level = DEBUG | INFO | ERROR

datatype log_arg = ArgJson json | ArgExn exn | ArgProject nat

type_synonym log_entry = "level \<times> string \<times> log_arg list"

text \<open>The world the service acts on: the two tables, the log written through
  \<open>log.debug\<close>, \<open>log.info\<close> and \<open>log.error\<close> (message and arguments, oldest first), and the
  URLs requested with GET through the session (oldest first).\<close>

record world =
  repositories :: "remote_repository list"
  organizations :: "remote_organization list"
  log :: "log_entry list"
  requests :: "json list"

text \<open>\<open>self.user\<close> and \<open>self.account\<close>, by primary key.\<close>

record service =
  user :: nat
  account :: nat

definition write_log :: "level \<Rightarrow> string \<Rightarrow> log_arg list \<Rightarrow> world \<Rightarrow> world" where
  "write_log lv msg args w = w\<lparr>log := log w @ [(lv, msg, args)]\<rparr>"

text \<open>A primary key no row of the table has.\<close>

definition fresh_pk :: "nat list \<Rightarrow> nat" where
  "fresh_pk pks = Suc (fold max pks 0)"

section \<open>create_repository\<close>

text \<open>\<open>RemoteRepository.objects.get(full_name=..., users=self.user, account=self.account)\<close>:
  the one matching row, \<open>DoesNotExist\<close> (here \<open>None\<close>, handled by the caller) when there is
  none, \<open>MultipleObjectsReturned\<close> when there are several.\<close>

definition repo_matches :: "service \<Rightarrow> json \<Rightarrow> remote_repository \<Rightarrow> bool" where
  "repo_matches self fn r \<longleftrightarrow>
     repo_full_name r = fn \<and> user self \<in> set (repo_users r) \<and> repo_account r = account self"

definition get_repository ::
  "service \<Rightarrow> json \<Rightarrow> remote_repository list \<Rightarrow> remote_repository option result" where
  "get_repository self fn rs =
     (case filter (repo_matches self fn) rs of
        [] \<Rightarrow> Return None
      | [r] \<Rightarrow> Return (Some r)
      | _ \<Rightarrow> Raise MultipleObjectsReturned)"

text \<open>\<open>RemoteRepository.objects.create(full_name=..., account=self.account)\<close> followed by
  \<open>repo.users.add(self.user)\<close>.\<close>

definition new_repository :: "service \<Rightarrow> json \<Rightarrow> remote_repository list \<Rightarrow> remote_repository" where
  "new_repository self fn rs =
     \<lparr> repo_pk = fresh_pk (map repo_pk rs), repo_full_name = fn, repo_users = [user self],
       repo_account = account self, repo_organization = None, repo_name = JNull,
       repo_description = JNull, repo_ssh_url = JNull, repo_html_url = JNull,
       repo_private = JNull, repo_clone_url = JNull, repo_admin = JNull, repo_vcs = [],
       repo_avatar_url = JNull, repo_json = JNull \<rparr>"

text \<open>\<open>repo.save()\<close>: the row with the key of \<open>repo\<close> is overwritten.\<close>

definition save_repository :: "remote_repository \<Rightarrow> remote_repository list \<Rightarrow> remote_repository list" where
  "save_repository repo rs = map (\<lambda>r. if repo_pk r = repo_pk repo then repo else r) rs"

text \<open>The condition of the outer \<open>if\<close>:
  \<open>(privacy == 'private') or (fields['private'] is False and privacy == 'public')\<close>,
  evaluated from left to right; \<open>fields['private']\<close> is read only when the first disjunct is
  false.\<close>

definition visible :: "json \<Rightarrow> string \<Rightarrow> bool result" where
  "visible payload privacy =
     (if privacy = ''private'' then Return True
      else rbind (subscript payload ''private'')
             (\<lambda>p. Return (p = JBool False \<and> privacy = ''public'')))"

text \<open>The assignments of lines 99 to 113, in order; the first failing read ends them.\<close>

definition assign_fields ::
  "service \<Rightarrow> json \<Rightarrow> nat option \<Rightarrow> remote_repository \<Rightarrow> remote_repository result" where
  "assign_fields self payload organization repo =
     rbind (subscript payload ''name'') (\<lambda>name.
     rbind (subscript payload ''description'') (\<lambda>description.
     rbind (subscript payload ''ssh_url'') (\<lambda>ssh_url.
     rbind (subscript payload ''html_url'') (\<lambda>html_url.
     rbind (subscript payload ''private'') (\<lambda>private.
     rbind (if truthy private then subscript payload ''ssh_url''
            else subscript payload ''clone_url'') (\<lambda>clone_url.
     rbind (rbind (dict_get payload ''permissions'' (JDict []))
              (\<lambda>ps. dict_get ps ''admin'' (JBool False))) (\<lambda>admin.
     rbind (rbind (dict_get payload ''owner'' (JDict []))
              (\<lambda>ow. dict_get ow ''avatar_url'' JNull)) (\<lambda>avatar_url.
     Return (repo\<lparr> repo_organization := organization, repo_name := name,
                    repo_description := description, repo_ssh_url := ssh_url,
                    repo_html_url := html_url, repo_private := private,
                    repo_clone_url := clone_url, repo_admin := admin, repo_vcs := ''git'',
                    repo_account := account self, repo_avatar_url := avatar_url,
                    repo_json := payload \<rparr>)))))))))"

text \<open>The test of line 94, \<open>repo.organization and repo.organization != organization\<close>: a
  model instance is true, and two instances are equal when their primary keys are.\<close>

definition mismatched_orgs :: "remote_repository \<Rightarrow> remote_organization option \<Rightarrow> bool" where
  "mismatched_orgs repo organization \<longleftrightarrow>
     repo_organization repo \<noteq> None \<and> repo_organization repo \<noteq> map_option org_pk organization"

definition create_repository ::
  "service \<Rightarrow> json \<Rightarrow> string \<Rightarrow> remote_organization option \<Rightarrow> world
     \<Rightarrow> world \<times> remote_repository option result" where
  "create_repository self payload privacy organization w =
     (case visible payload privacy of
        Raise e \<Rightarrow> (w, Raise e)
      | Return False \<Rightarrow>
          (case subscript payload ''name'' of
             Raise e \<Rightarrow> (w, Raise e)
           | Return name \<Rightarrow>
               (write_log DEBUG ''Not importing %s because mismatched type'' [ArgJson name] w,
                Return None))
      | Return True \<Rightarrow>
          (case subscript payload ''full_name'' of
             Raise e \<Rightarrow> (w, Raise e)
           | Return fn \<Rightarrow>
               (case get_repository self fn (repositories w) of
                  Raise e \<Rightarrow> (w, Raise e)
                | Return found \<Rightarrow>
                    (let repo = (case found of
                                   Some r \<Rightarrow> r
                                 | None \<Rightarrow> new_repository self fn (repositories w));
                         w1 = (case found of
                                 Some r \<Rightarrow> w
                               | None \<Rightarrow> w\<lparr>repositories := repositories w @ [repo]\<rparr>)
                     in if mismatched_orgs repo organization
                        then (case subscript payload ''name'' of
                                Raise e \<Rightarrow> (w1, Raise e)
                              | Return name \<Rightarrow>
                                  (write_log DEBUG ''Not importing %s because mismatched orgs''
                                     [ArgJson name] w1,
                                   Return None))
                        else (case assign_fields self payload (map_option org_pk organization) repo of
                                Raise e \<Rightarrow> (w1, Raise e)
                              | Return repo' \<Rightarrow>
                                  (w1\<lparr>repositories := save_repository repo' (repositories w1)\<rparr>,
                                   Return (Some repo')))))))"

text \<open>The loop \<open>for repo in repos: self.create_repository(repo, ...)\<close>: the first
  exception ends it.\<close>

fun create_repositories ::
  "service \<Rightarrow> json list \<Rightarrow> string \<Rightarrow> remote_organization option \<Rightarrow> world
     \<Rightarrow> world \<times> unit result" where
  "create_repositories self [] privacy organization w = (w, Return ())"
| "create_repositories self (repo # repos) privacy organization w =
     (case create_repository self repo privacy organization w of
        (w1, Raise e) \<Rightarrow> (w1, Raise e)
      | (w1, Return _) \<Rightarrow> create_repositories self repos privacy organization w1)"

section \<open>create_organization\<close>

definition org_matches :: "service \<Rightarrow> json \<Rightarrow> remote_organization \<Rightarrow> bool" where
  "org_matches self slug orga \<longleftrightarrow>
     org_slug orga = slug \<and> user self \<in> set (org_users orga) \<and> org_account orga = account self"

definition get_organization ::
  "service \<Rightarrow> json \<Rightarrow> remote_organization list \<Rightarrow> remote_organization option result" where
  "get_organization self slug os =
     (case filter (org_matches self slug) os of
        [] \<Rightarrow> Return None
      | [orga] \<Rightarrow> Return (Some orga)
      | _ \<Rightarrow> Raise MultipleObjectsReturned)"

definition new_organization ::
  "service \<Rightarrow> json \<Rightarrow> remote_organization list \<Rightarrow> remote_organization" where
  "new_organization self slug os =
     \<lparr> org_pk = fresh_pk (map org_pk os), org_slug = slug, org_users = [user self],
       org_account = account self, org_url = JNull, org_name = JNull, org_email = JNull,
       org_avatar_url = JNull, org_json = JNull \<rparr>"

definition save_organization ::
  "remote_organization \<Rightarrow> remote_organization list \<Rightarrow> remote_organization list" where
  "save_organization orga os = map (\<lambda>x. if org_pk x = org_pk orga then orga else x) os"

text \<open>\<open>fields.get(key)\<close> gives \<open>None\<close>, here \<open>JNull\<close>, for a missing key.\<close>

definition create_organization ::
  "service \<Rightarrow> json \<Rightarrow> world \<Rightarrow> world \<times> remote_organization result" where
  "create_organization self payload w =
     (case dict_get payload ''login'' JNull of
        Raise e \<Rightarrow> (w, Raise e)
      | Return slug \<Rightarrow>
          (case get_organization self slug (organizations w) of
             Raise e \<Rightarrow> (w, Raise e)
           | Return found \<Rightarrow>
               (let organization = (case found of
                                      Some orga \<Rightarrow> orga
                                    | None \<Rightarrow> new_organization self slug (organizations w));
                    w1 = (case found of
                            Some orga \<Rightarrow> w
                          | None \<Rightarrow> w\<lparr>organizations := organizations w @ [organization]\<rparr>)
                in (case rbind (dict_get payload ''html_url'' JNull) (\<lambda>url.
                         rbind (dict_get payload ''name'' JNull) (\<lambda>name.
                         rbind (dict_get payload ''email'' JNull) (\<lambda>email.
                         rbind (dict_get payload ''avatar_url'' JNull) (\<lambda>avatar_url.
                         Return (organization\<lparr> org_url := url, org_name := name,
                                   org_email := email, org_avatar_url := avatar_url,
                                   org_json := payload, org_account := account self \<rparr>))))) of
                      Raise e \<Rightarrow> (w1, Raise e)
                    | Return organization' \<Rightarrow>
                        (w1\<lparr>organizations := save_organization organization' (organizations w1)\<rparr>,
                         Return organization')))))"

section \<open>The remote API\<close>

text \<open>
  A response of the HTTP session: its status, its body as \<open>resp.json()\<close> parses it
  (\<open>None\<close> when the body is not JSON: \<open>resp.json()\<close> raises ValueError), and the
  parsed \<open>Link\<close> header, \<open>resp.links\<close>, a dict of dicts of strings.
\<close>

record response =
  status_code :: nat
  body :: "json option"
  links :: "(string \<times> (string \<times> string) list) list"

text \<open>
  What the service is given from outside: the session's \<open>get\<close> and \<open>post\<close> (a transport
  failure is a raised exception), \<open>str.format\<close> on a value that is not a string,
  \<open>build_utils.get_github_username_repo\<close>, the remote token lookup
  \<open>api.project(pk).token().get()\<close>, the settings, and the table of stored social tokens
  (user, provider, token).
\<close>

record environment =
  session_get :: "json \<Rightarrow> response result"
  session_post :: "string \<Rightarrow> json \<Rightarrow> response result"
  format_value :: "json \<Rightarrow> string"
  get_github_username_repo :: "string \<Rightarrow> string \<times> string"
  api_project_token :: "nat \<Rightarrow> json result"
  DEFAULT_PRIVACY_LEVEL :: string
  PRODUCTION_DOMAIN :: string
  ALLOW_PRIVATE_REPOS :: "json option"
  DONT_HIT_DB :: "json option"
  social_tokens :: "(nat \<times> string \<times> string) list"

definition resp_json :: "response \<Rightarrow> json result" where
  "resp_json resp = (case body resp of None \<Rightarrow> Raise ValueError | Some j \<Rightarrow> Return j)"

text \<open>\<open>resp.links.get('next', {}).get('url')\<close>\<close>

definition next_link :: "response \<Rightarrow> string option" where
  "next_link resp =
     (case map_of (links resp) ''next'' of None \<Rightarrow> None | Some attrs \<Rightarrow> map_of attrs ''url'')"

definition request :: "json \<Rightarrow> world \<Rightarrow> world" where
  "request url w = w\<lparr>requests := requests w @ [url]\<rparr>"

section \<open>paginate\<close>

text \<open>
  \<open>paginate\<close> calls itself for as long as a page names a next one; nothing bounds the
  number of pages, so the result is an option and \<open>None\<close> stands for a call that does
  not return. (Python's recursion limit is not modelled.) In
  \<open>result.extend(self.paginate(next_url))\<close> the method \<open>extend\<close> is looked up before
  the argument is evaluated: a first page that is not a list raises AttributeError
  without a further request.
\<close>

partial_function (option) paginate ::
  "environment \<Rightarrow> string \<Rightarrow> world \<Rightarrow> (world \<times> json result) option" where
  "paginate env url w =
     (case session_get env (JStr url) of
        Raise e \<Rightarrow> Some (request (JStr url) w, Raise e)
      | Return resp \<Rightarrow>
          (case resp_json resp of
             Raise e \<Rightarrow> Some (request (JStr url) w, Raise e)
           | Return result \<Rightarrow>
               (case next_link resp of
                  None \<Rightarrow> Some (request (JStr url) w, Return result)
                | Some next_url \<Rightarrow>
                    if next_url = [] then Some (request (JStr url) w, Return result)
                    else (case result of
                            JList xs \<Rightarrow>
                              Option.bind (paginate env next_url (request (JStr url) w))
                                (\<lambda>(w2, r). Some (w2,
                                    rbind r (\<lambda>more. rbind (py_iter more)
                                      (\<lambda>ys. Return (JList (xs @ ys))))))
                          | _ \<Rightarrow> Some (request (JStr url) w, Raise AttributeError)))))"

section \<open>sync\<close>

text \<open>The handler of \<open>except (TypeError, ValueError) as e\<close>: every other exception passes
  through unchanged.\<close>

definition reconnect :: "string \<Rightarrow> string \<Rightarrow> world \<times> unit result \<Rightarrow> world \<times> unit result" where
  "reconnect log_msg user_msg r =
     (case r of
        (w, Raise e) \<Rightarrow>
          if e = TypeError \<or> e = ValueError
          then (write_log ERROR log_msg [ArgExn e] w, Raise (Exception user_msg))
          else (w, Raise e)
      | (w, Return u) \<Rightarrow> (w, Return u))"

text \<open>The body of the \<open>try\<close> of \<open>sync_repositories\<close>.\<close>

definition import_repositories ::
  "service \<Rightarrow> json \<Rightarrow> string \<Rightarrow> remote_organization option \<Rightarrow> world \<Rightarrow> world \<times> unit result" where
  "import_repositories self repos privacy organization w =
     (case py_iter repos of
        Raise e \<Rightarrow> (w, Raise e)
      | Return rs \<Rightarrow> create_repositories self rs privacy organization w)"

definition sync_repositories ::
  "environment \<Rightarrow> service \<Rightarrow> world \<Rightarrow> (world \<times> unit result) option" where
  "sync_repositories env self w =
     (case paginate env ''https://api.github.com/user/repos?per_page=100'' w of
        None \<Rightarrow> None
      | Some (w1, Raise e) \<Rightarrow> Some (w1, Raise e)
      | Some (w1, Return repos) \<Rightarrow>
          Some (reconnect ''Error syncing GitHub repositories: %s''
                  ''Could not sync your GitHub repositories, try reconnecting your account''
                  (import_repositories self repos (DEFAULT_PRIVACY_LEVEL env) None w1)))"

text \<open>\<open>'{org_url}/repos'.format(org_url=org['url'])\<close>\<close>

definition repos_url :: "environment \<Rightarrow> json \<Rightarrow> string" where
  "repos_url env u = (case u of JStr s \<Rightarrow> s | _ \<Rightarrow> format_value env u) @ ''/repos''"

text \<open>The loop \<open>for org in orgs\<close> of \<open>sync_organizations\<close>.\<close>

fun sync_each_organization ::
  "environment \<Rightarrow> service \<Rightarrow> json list \<Rightarrow> world \<Rightarrow> (world \<times> unit result) option" where
  "sync_each_organization env self [] w = Some (w, Return ())"
| "sync_each_organization env self (org # orgs) w =
     (case subscript org ''url'' of
        Raise e \<Rightarrow> Some (w, Raise e)
      | Return u \<Rightarrow>
          (case session_get env u of
             Raise e \<Rightarrow> Some (request u w, Raise e)
           | Return org_resp \<Rightarrow>
               (case resp_json org_resp of
                  Raise e \<Rightarrow> Some (request u w, Raise e)
                | Return j \<Rightarrow>
                    (case create_organization self j (request u w) of
                       (w2, Raise e) \<Rightarrow> Some (w2, Raise e)
                     | (w2, Return org_obj) \<Rightarrow>
                         (case paginate env (repos_url env u) w2 of
                            None \<Rightarrow> None
                          | Some (w3, Raise e) \<Rightarrow> Some (w3, Raise e)
                          | Some (w3, Return org_repos) \<Rightarrow>
                              (case import_repositories self org_repos
                                      (DEFAULT_PRIVACY_LEVEL env) (Some org_obj) w3 of
                                 (w4, Raise e) \<Rightarrow> Some (w4, Raise e)
                               | (w4, Return _) \<Rightarrow> sync_each_organization env self orgs w4))))))"

definition sync_organizations ::
  "environment \<Rightarrow> service \<Rightarrow> world \<Rightarrow> (world \<times> unit result) option" where
  "sync_organizations env self w =
     map_option
       (reconnect ''Error syncing GitHub organizations: %s''
          ''Could not sync your GitHub organizations, try reconnecting your account'')
       (case paginate env ''https://api.github.com/user/orgs'' w of
          None \<Rightarrow> None
        | Some (w1, Raise e) \<Rightarrow> Some (w1, Raise e)
        | Some (w1, Return orgs) \<Rightarrow>
            (case py_iter orgs of
               Raise e \<Rightarrow> Some (w1, Raise e)
             | Return os \<Rightarrow> sync_each_organization env self os w1))"

definition sync :: "environment \<Rightarrow> service \<Rightarrow> world \<Rightarrow> (world \<times> unit result) option" where
  "sync env self w =
     (case sync_repositories env self w of
        None \<Rightarrow> None
      | Some (w1, Raise e) \<Rightarrow> Some (w1, Raise e)
      | Some (w1, Return _) \<Rightarrow> sync_organizations env self w1)"

section \<open>setup_webhook\<close>

record project =
  project_pk :: nat
  project_repo :: string
  project_users :: "nat list"





section \<open>get_token_for_project\<close>

text \<open>\<open>getattr(settings, name, default)\<close>\<close>

definition setting :: "json option \<Rightarrow> bool \<Rightarrow> json" where
  "setting v dflt = (case v of None \<Rightarrow> JBool dflt | Some x \<Rightarrow> x)"

text \<open>The loop over \<open>project.users.all()\<close>: \<open>token\<close> is assigned for every user that has
  a stored token of the provider, and the loop has no \<open>break\<close>.\<close>

fun scan_users :: "(nat \<times> string \<times> string) list \<Rightarrow> string \<Rightarrow> nat list \<Rightarrow> json \<Rightarrow> json" where
  "scan_users table provider [] token = token"
| "scan_users table provider (u # us) token =
     (case filter (\<lambda>t. fst t = u \<and> fst (snd t) = provider) table of
        [] \<Rightarrow> scan_users table provider us token
      | t # _ \<Rightarrow> scan_users table provider us (JStr (snd (snd t))))"

text \<open>The result is the token, \<open>JNull\<close> for Python's \<open>None\<close>. \<open>cls.adapter.provider_id\<close> is
  \<open>'github'\<close>. Every exception of the \<open>try\<close> block is caught and logged.\<close>

definition get_token_for_project ::
  "environment \<Rightarrow> project \<Rightarrow> bool \<Rightarrow> world \<Rightarrow> world \<times> json result" where
  "get_token_for_project env project force_local w =
     (if \<not> truthy (setting (ALLOW_PRIVATE_REPOS env) False) then (w, Return JNull)
      else if truthy (setting (DONT_HIT_DB env) True) \<and> \<not> force_local
      then (case rbind (api_project_token env (project_pk project)) (\<lambda>r. subscript r ''token'') of
              Raise e \<Rightarrow> (write_log ERROR ''Failed to get token for user'' [] w, Return JNull)
            | Return token \<Rightarrow> (w, Return token))
      else (w, Return (scan_users (social_tokens env) ''github'' (project_users project) JNull)))"

section \<open>Notions of the specification\<close>

text \<open>A payload with every key that \<open>create_repository\<close> reads, whose \<open>permissions\<close> and
  \<open>owner\<close>, when present, are objects.\<close>

definition complete_payload :: "json \<Rightarrow> bool" where
  "complete_payload payload \<longleftrightarrow>
     list_all (\<lambda>k. case subscript payload k of Return _ \<Rightarrow> True | Raise _ \<Rightarrow> False)
       [''full_name'', ''name'', ''description'', ''ssh_url'', ''html_url'', ''private'',
        ''clone_url''] \<and>
     list_all (\<lambda>k. case dict_get payload k (JDict []) of Return (JDict _) \<Rightarrow> True | _ \<Rightarrow> False)
       [''permissions'', ''owner'']"

text \<open>The pages reachable from a start URL by following the \<open>next\<close> links: each page
  is a JSON array, and the last page names no next one.\<close>

fun pages_from :: "environment \<Rightarrow> string \<Rightarrow> json list list \<Rightarrow> bool" where
  "pages_from env url [] = False"
| "pages_from env url (p # ps) =
     (case session_get env (JStr url) of
        Raise e \<Rightarrow> False
      | Return resp \<Rightarrow>
          body resp = Some (JList p) \<and>
          (case next_link resp of
             None \<Rightarrow> ps = []
           | Some next_url \<Rightarrow>
               if next_url = [] then ps = [] else ps \<noteq> [] \<and> pages_from env next_url ps))"

text \<open>The users of a project that have a stored token of the provider, and the first
  stored token of a user.\<close>

definition users_with_token :: "(nat \<times> string \<times> string) list \<Rightarrow> string \<Rightarrow> nat list \<Rightarrow> nat list" where
  "users_with_token table provider us =
     filter (\<lambda>u. filter (\<lambda>t. fst t = u \<and> fst (snd t) = provider) table \<noteq> []) us"

definition token_of :: "(nat \<times> string \<times> string) list \<Rightarrow> string \<Rightarrow> nat \<Rightarrow> json" where
  "token_of table provider u =
     (case filter (\<lambda>t. fst t = u \<and> fst (snd t) = provider) table of
        [] \<Rightarrow> JNull
      | t # _ \<Rightarrow> JStr (snd (snd t)))"

text \<open>"Returns the first match found, or nothing", in the specification's words.\<close>

definition first_match :: "(nat \<times> string \<times> string) list \<Rightarrow> string \<Rightarrow> nat list \<Rightarrow> json" where
  "first_match table provider us =
     (case users_with_token table provider us of
        [] \<Rightarrow> JNull
      | u # _ \<Rightarrow> token_of table provider u)"

section \<open>Example data\<close>

definition example_self :: service where
  "example_self = \<lparr> user = 1, account = 1 \<rparr>"

definition example_payload :: "bool \<Rightarrow> json" where
  "example_payload private =
     JDict [(''full_name'', JStr ''rtfd/docs''), (''name'', JStr ''docs''),
            (''description'', JNull), (''ssh_url'', JStr ''git@github.com:rtfd/docs.git''),
            (''html_url'', JStr ''https://github.com/rtfd/docs''), (''private'', JBool private),
            (''clone_url'', JStr ''https://github.com/rtfd/docs.git''),
            (''permissions'', JDict [(''admin'', JBool True)])]"

definition empty_world :: world where
  "empty_world = \<lparr> repositories = [], organizations = [], log = [], requests = [] \<rparr>"

definition example_organization :: "nat \<Rightarrow> remote_organization" where
  "example_organization k =
     \<lparr> org_pk = k, org_slug = JStr ''rtfd'', org_users = [1], org_account = 1, org_url = JNull,
       org_name = JNull, org_email = JNull, org_avatar_url = JNull, org_json = JNull \<rparr>"

text \<open>A stored repository of \<open>example_self\<close>, linked to the organization with key 7.\<close>

definition linked_repository :: remote_repository where
  "linked_repository =
     (new_repository example_self (JStr ''rtfd/docs'') []) \<lparr> repo_organization := Some 7 \<rparr>"

definition linked_world :: world where
  "linked_world = empty_world \<lparr> repositories := [linked_repository] \<rparr>"

definition example_response :: "json option \<Rightarrow> string \<Rightarrow> response" where
  "example_response b next_url =
     \<lparr> status_code = 200, body = b,
       links = (if next_url = [] then [] else [(''next'', [(''url'', next_url)])]) \<rparr>"

text \<open>An API whose pages are given by a table from URL to body and next URL; every
  other request fails.\<close>

definition example_env :: "(string \<times> json option \<times> string) list \<Rightarrow> environment" where
  "example_env pages =
     \<lparr> session_get = (\<lambda>u. case u of
          JStr s \<Rightarrow> (case map_of pages s of
                       None \<Rightarrow> Raise RequestException
                     | Some (b, n) \<Rightarrow> Return (example_response b n))
        | _ \<Rightarrow> Raise RequestException),
       session_post = (\<lambda>u d. if u = ''https://api.github.com/repos/rtfd/docs/hooks''
                              then Return (example_response None [] \<lparr> status_code := 201 \<rparr>)
                              else if u = ''https://api.github.com/repos/rtfd/other/hooks''
                              then Return (example_response None [] \<lparr> status_code := 404 \<rparr>)
                              else Raise RequestException),
       format_value = (\<lambda>v. ''None''),
       get_github_username_repo = (\<lambda>u. if u = ''https://github.com/rtfd/docs''
                                        then (''rtfd'', ''docs'')
                                        else if u = ''https://github.com/rtfd/other''
                                        then (''rtfd'', ''other'')
                                        else (''None'', ''None'')),
       api_project_token = (\<lambda>pk. Raise RequestException),
       DEFAULT_PRIVACY_LEVEL = ''public'',
       PRODUCTION_DOMAIN = ''readthedocs.org'',
       ALLOW_PRIVATE_REPOS = Some (JBool True),
       DONT_HIT_DB = Some (JBool False),
       social_tokens = [(1, ''github'', ''token-of-1''), (2, ''github'', ''token-of-2'')] \<rparr>"

definition example_project :: "string \<Rightarrow> project" where
  "example_project url = \<lparr> project_pk = 1, project_repo = url, project_users = [1, 2] \<rparr>"

definition example_stored :: "bool \<Rightarrow> remote_repository" where
  "example_stored p =
     \<lparr> repo_pk = 1, repo_full_name = JStr ''rtfd/docs'', repo_users = [1], repo_account = 1,
       repo_organization = None, repo_name = JStr ''docs'', repo_description = JNull,
       repo_ssh_url = JStr ''git@github.com:rtfd/docs.git'',
       repo_html_url = JStr ''https://github.com/rtfd/docs'', repo_private = JBool p,
       repo_clone_url = JStr (if p then ''git@github.com:rtfd/docs.git''
                              else ''https://github.com/rtfd/docs.git''),
       repo_admin = JBool True, repo_vcs = ''git'', repo_avatar_url = JNull,
       repo_json = example_payload p \<rparr>"

text \<open>Two pages of a listing, the first naming the second as next.\<close>

definition two_pages :: "(string \<times> json option \<times> string) list" where
  "two_pages =
     [(''https://api.github.com/user/repos?per_page=100'',
         Some (JList [JInt 1, JInt 2]), ''https://api.github.com/user/repos?page=2''),
      (''https://api.github.com/user/repos?page=2'', Some (JList [JInt 3]), [])]"

text \<open>An API that answers both listings with a body that is not JSON.\<close>

definition not_json_pages :: "(string \<times> json option \<times> string) list" where
  "not_json_pages =
     [(''https://api.github.com/user/repos?per_page=100'', None, []),
      (''https://api.github.com/user/orgs'', None, [])]"

text \<open>An API that answers the repository listing with an error object, and the
  organization listing with an empty array.\<close>

definition bad_credentials_pages :: "(string \<times> json option \<times> string) list" where
  "bad_credentials_pages =
     [(''https://api.github.com/user/repos?per_page=100'',
         Some (JDict [(''message'', JStr ''Bad credentials'')]), []),
      (''https://api.github.com/user/orgs'', Some (JList []), [])]"



section \<open>Properties of create_repository\<close>


lemma get_repository_Some:
  "get_repository self fn rs = Return (Some r) \<Longrightarrow> filter (repo_matches self fn) rs = [r]"
  by (auto simp: get_repository_def split: list.splits)

lemma get_repository_None:
  "get_repository self fn rs = Return None \<Longrightarrow> filter (repo_matches self fn) rs = []"
  by (auto simp: get_repository_def split: list.splits)

lemma filter_single_mem: "filter P xs = [r] \<Longrightarrow> r \<in> set xs \<and> P r"
proof -
  assume "filter P xs = [r]"
  then have "r \<in> set (filter P xs)" by simp
  then show ?thesis by simp
qed

lemma create_repository_Some:
  assumes "create_repository self payload privacy organization w = (w', Return (Some r))"
  obtains fn found repo w1 where
    "visible payload privacy = Return True"
    "subscript payload ''full_name'' = Return fn"
    "get_repository self fn (repositories w) = Return found"
    "repo = (case found of Some r0 \<Rightarrow> r0 | None \<Rightarrow> new_repository self fn (repositories w))"
    "w1 = (case found of Some r0 \<Rightarrow> w | None \<Rightarrow> w\<lparr>repositories := repositories w @ [repo]\<rparr>)"
    "\<not> mismatched_orgs repo organization"
    "assign_fields self payload (map_option org_pk organization) repo = Return r"
    "w' = w1\<lparr>repositories := save_repository r (repositories w1)\<rparr>"
  using assms unfolding create_repository_def
  by (auto simp: Let_def write_log_def split: result.splits bool.splits if_splits)

lemma assign_fields_Return:
  assumes "assign_fields self payload organization repo = Return r"
  shows "repo_pk r = repo_pk repo"
    and "subscript payload ''private'' = Return (repo_private r)"
    and "truthy (repo_private r) \<Longrightarrow> subscript payload ''ssh_url'' = Return (repo_clone_url r)"
    and "\<not> truthy (repo_private r) \<Longrightarrow> subscript payload ''clone_url'' = Return (repo_clone_url r)"
    and "repo_organization r = organization"
    and "repo_full_name r = repo_full_name repo"
    and "repo_users r = repo_users repo"
    and "repo_account r = account self"
  using assms unfolding assign_fields_def rbind_def
  by (auto split: result.splits if_splits)

lemma save_repository_tables [simp]:
  "length (save_repository r rs) = length rs"
  "map repo_pk (save_repository r rs) = map repo_pk rs"
  by (simp_all add: save_repository_def)

lemma save_repository_mem:
  "repo_pk r \<in> repo_pk ` set rs \<Longrightarrow> r \<in> set (save_repository r rs)"
  by (auto simp: save_repository_def)

text \<open>
  C2. A record that \<open>create_repository\<close> returns has been saved to the table, its
  \<open>private\<close> attribute is the payload's, and its clone URL is the payload's \<open>ssh_url\<close>
  when the record is private and the payload's \<open>clone_url\<close> when it is not.
\<close>

theorem create_repository_clone_url:
  assumes "create_repository self payload privacy organization w = (w', Return (Some r))"
  shows "r \<in> set (repositories w') \<and>
         subscript payload ''private'' = Return (repo_private r) \<and>
         (truthy (repo_private r) \<longrightarrow> subscript payload ''ssh_url'' = Return (repo_clone_url r)) \<and>
         (\<not> truthy (repo_private r) \<longrightarrow> subscript payload ''clone_url'' = Return (repo_clone_url r))"
proof -
  from assms obtain fn found repo w1 where
    g: "get_repository self fn (repositories w) = Return found"
    and repo: "repo = (case found of Some r0 \<Rightarrow> r0 | None \<Rightarrow> new_repository self fn (repositories w))"
    and w1: "w1 = (case found of Some r0 \<Rightarrow> w | None \<Rightarrow> w\<lparr>repositories := repositories w @ [repo]\<rparr>)"
    and a: "assign_fields self payload (map_option org_pk organization) repo = Return r"
    and w': "w' = w1\<lparr>repositories := save_repository r (repositories w1)\<rparr>"
    by (rule create_repository_Some)
  have "repo \<in> set (repositories w1)"
  proof (cases found)
    case None
    then show ?thesis using w1 by simp
  next
    case (Some r0)
    then show ?thesis using g repo w1 filter_single_mem [OF get_repository_Some] by fastforce
  qed
  then have "repo_pk r \<in> repo_pk ` set (repositories w1)"
    using assign_fields_Return(1) [OF a] by force
  then have "r \<in> set (repositories w')"
    using w' by (simp add: save_repository_mem)
  then show ?thesis
    using assign_fields_Return(2,3,4) [OF a] by simp
qed

lemma create_repository_hidden:
  "visible payload privacy = Return False \<Longrightarrow>
   create_repository self payload privacy organization w =
     (case subscript payload ''name'' of
        Raise e \<Rightarrow> (w, Raise e)
      | Return name \<Rightarrow>
          (write_log DEBUG ''Not importing %s because mismatched type'' [ArgJson name] w,
           Return None))"
  by (simp add: create_repository_def)

lemma create_repository_raise:
  "visible payload privacy = Raise e \<Longrightarrow>
   create_repository self payload privacy organization w = (w, Raise e)"
  "visible payload privacy = Return True \<Longrightarrow> subscript payload ''full_name'' = Raise e \<Longrightarrow>
   create_repository self payload privacy organization w = (w, Raise e)"
  "visible payload privacy = Return True \<Longrightarrow> subscript payload ''full_name'' = Return fn \<Longrightarrow>
   get_repository self fn (repositories w) = Raise e \<Longrightarrow>
   create_repository self payload privacy organization w = (w, Raise e)"
  by (simp_all add: create_repository_def)

lemma create_repository_found:
  "visible payload privacy = Return True \<Longrightarrow> subscript payload ''full_name'' = Return fn \<Longrightarrow>
   get_repository self fn (repositories w) = Return (Some r) \<Longrightarrow>
   create_repository self payload privacy organization w =
     (if mismatched_orgs r organization
      then (case subscript payload ''name'' of
              Raise e \<Rightarrow> (w, Raise e)
            | Return name \<Rightarrow>
                (write_log DEBUG ''Not importing %s because mismatched orgs'' [ArgJson name] w,
                 Return None))
      else (case assign_fields self payload (map_option org_pk organization) r of
              Raise e \<Rightarrow> (w, Raise e)
            | Return repo' \<Rightarrow>
                (w\<lparr>repositories := save_repository repo' (repositories w)\<rparr>,
                 Return (Some repo'))))"
  by (simp add: create_repository_def)


lemma create_repository_conflict:
  assumes fn: "subscript payload ''full_name'' = Return fn"
      and r: "r \<in> set (repositories w)" "repo_matches self fn r"
      and m: "mismatched_orgs r organization"
  shows "repositories (fst (create_repository self payload privacy organization w)) = repositories w
         \<and> organizations (fst (create_repository self payload privacy organization w)) = organizations w
         \<and> (\<forall>x. snd (create_repository self payload privacy organization w) \<noteq> Return (Some x))"
proof (cases "visible payload privacy")
  case (Raise e)
  then show ?thesis by (simp add: create_repository_raise)
next
  case (Return v)
  show ?thesis
  proof (cases v)
    case False
    then show ?thesis using Return
      by (simp add: create_repository_hidden write_log_def split: result.splits)
  next
    case True
    have vis: "visible payload privacy = Return True" using Return True by simp
    show ?thesis
    proof (cases "get_repository self fn (repositories w)")
      case (Raise e)
      then show ?thesis using vis fn by (simp add: create_repository_raise)
    next
      case (Return found)
      have "filter (repo_matches self fn) (repositories w) \<noteq> []"
        using r by (auto simp: filter_empty_conv)
      then obtain r0 where f: "found = Some r0"
        using Return get_repository_None by (cases found) auto
      then have "filter (repo_matches self fn) (repositories w) = [r0]"
        using Return get_repository_Some by simp
      moreover have "r \<in> set (filter (repo_matches self fn) (repositories w))"
        using r by simp
      ultimately have "r0 = r" by simp
      then show ?thesis using vis fn Return f m
        by (simp add: create_repository_found write_log_def split: result.splits)
    qed
  qed
qed

lemma create_repository_conflict_None:
  assumes fn: "subscript payload ''full_name'' = Return fn"
      and r: "filter (repo_matches self fn) (repositories w) = [r]"
      and m: "mismatched_orgs r organization"
      and n: "subscript payload ''name'' = Return n"
      and v: "visible payload privacy = Return True"
  shows "create_repository self payload privacy organization w =
           (write_log DEBUG ''Not importing %s because mismatched orgs'' [ArgJson n] w, Return None)"
proof -
  have "get_repository self fn (repositories w) = Return (Some r)"
    using r by (simp add: get_repository_def)
  then show ?thesis using fn m n v by (simp add: create_repository_found)
qed


lemma example_facts:
  "subscript (example_payload p) ''full_name'' = Return (JStr ''rtfd/docs'')"
  "subscript (example_payload p) ''name'' = Return (JStr ''docs'')"
  "subscript (example_payload p) ''private'' = Return (JBool p)"
  "subscript (example_payload p) ''ssh_url'' = Return (JStr ''git@github.com:rtfd/docs.git'')"
  "subscript (example_payload p) ''clone_url'' = Return (JStr ''https://github.com/rtfd/docs.git'')"
  "visible (example_payload False) ''public'' = Return True"
  "visible (example_payload True) ''public'' = Return False"
  "visible (example_payload p) ''private'' = Return True"
  "repositories linked_world = [linked_repository]"
  "repo_matches example_self (JStr ''rtfd/docs'') linked_repository"
  "repo_organization linked_repository = Some 7"
  "org_pk (example_organization k) = k"
  by (simp_all add: example_payload_def subscript_def visible_def rbind_def linked_world_def
        empty_world_def repo_matches_def linked_repository_def new_repository_def
        example_self_def example_organization_def)

text \<open>
  C3. When the table holds a record for the payload's full name, the user and the account
  that is linked to an organization \<open>a\<close>, a call of \<open>create_repository\<close> under another
  organization \<open>b\<close> changes neither table and returns no record; when the record is the
  only match, the payload passes the visibility filter and has a name, the call logs
  "mismatched orgs" and returns \<open>None\<close>.
\<close>

theorem create_repository_other_organization_untouched:
  assumes "subscript payload ''full_name'' = Return fn"
      and "r \<in> set (repositories w)" and "repo_matches self fn r"
      and "repo_organization r = Some a" and "org_pk b \<noteq> a"
  shows "repositories (fst (create_repository self payload privacy (Some b) w)) = repositories w
       \<and> organizations (fst (create_repository self payload privacy (Some b) w)) = organizations w
       \<and> (\<forall>x. snd (create_repository self payload privacy (Some b) w) \<noteq> Return (Some x))
       \<and> (filter (repo_matches self fn) (repositories w) = [r]
            \<and> visible payload privacy = Return True \<and> subscript payload ''name'' = Return n
          \<longrightarrow> create_repository self payload privacy (Some b) w =
                (write_log DEBUG ''Not importing %s because mismatched orgs'' [ArgJson n] w,
                 Return None))"
proof -
  have m: "mismatched_orgs r (Some b)"
    using assms(4,5) by (auto simp: mismatched_orgs_def)
  show ?thesis
    using create_repository_conflict [OF assms(1,2,3) m]
      create_repository_conflict_None [OF assms(1) _ m]
    by blast
qed

theorem create_repository_other_organization_untouched_witness:
  "subscript (example_payload False) ''full_name'' = Return (JStr ''rtfd/docs'')
   \<and> linked_repository \<in> set (repositories linked_world)
   \<and> repo_matches example_self (JStr ''rtfd/docs'') linked_repository
   \<and> repo_organization linked_repository = Some 7
   \<and> org_pk (example_organization 8) \<noteq> 7
   \<and> create_repository example_self (example_payload False) ''public''
         (Some (example_organization 8)) linked_world
       = (write_log DEBUG ''Not importing %s because mismatched orgs'' [ArgJson (JStr ''docs'')]
            linked_world, Return None)"
  using create_repository_other_organization_untouched
    [of "example_payload False" "JStr ''rtfd/docs''" linked_repository linked_world
        example_self 7 "example_organization 8" "''public''" "JStr ''docs''"]
  by (simp add: example_facts)


lemma example_create:
  "create_repository example_self (example_payload False) ''public'' None empty_world =
     (empty_world\<lparr>repositories := [example_stored False]\<rparr>, Return (Some (example_stored False)))"
  "create_repository example_self (example_payload True) ''private'' None empty_world =
     (empty_world\<lparr>repositories := [example_stored True]\<rparr>, Return (Some (example_stored True)))"
  by (simp_all add: create_repository_def visible_def subscript_def rbind_def example_payload_def
        get_repository_def empty_world_def new_repository_def mismatched_orgs_def
        assign_fields_def dict_get_def save_repository_def example_stored_def example_self_def
        fresh_pk_def)

theorem create_repository_clone_url_witness:
  "create_repository example_self (example_payload True) ''private'' None empty_world =
     (empty_world\<lparr>repositories := [example_stored True]\<rparr>, Return (Some (example_stored True)))
   \<and> truthy (repo_private (example_stored True))
   \<and> subscript (example_payload True) ''ssh_url'' = Return (repo_clone_url (example_stored True))"
  using create_repository_clone_url [OF example_create(2)] example_create(2)
  by (simp add: example_stored_def)

text \<open>
  C10. When the table holds a record for the payload's full name, the user and the account
  that is linked to some organization, a call of \<open>create_repository\<close> with the default
  \<open>organization=None\<close> changes neither table and returns no record, so the link stays;
  when the record is the only match, the payload passes the visibility filter and has a
  name, the call takes the branch of line 94: it logs "mismatched orgs" and returns
  \<open>None\<close>.
\<close>

theorem create_repository_default_organization_untouched:
  assumes "subscript payload ''full_name'' = Return fn"
      and "r \<in> set (repositories w)" and "repo_matches self fn r"
      and "repo_organization r = Some a"
  shows "repositories (fst (create_repository self payload privacy None w)) = repositories w
       \<and> organizations (fst (create_repository self payload privacy None w)) = organizations w
       \<and> (\<forall>x. snd (create_repository self payload privacy None w) \<noteq> Return (Some x))
       \<and> (filter (repo_matches self fn) (repositories w) = [r]
            \<and> visible payload privacy = Return True \<and> subscript payload ''name'' = Return n
          \<longrightarrow> create_repository self payload privacy None w =
                (write_log DEBUG ''Not importing %s because mismatched orgs'' [ArgJson n] w,
                 Return None))"
proof -
  have m: "mismatched_orgs r None"
    using assms(4) by (simp add: mismatched_orgs_def)
  show ?thesis
    using create_repository_conflict [OF assms(1,2,3) m]
      create_repository_conflict_None [OF assms(1) _ m]
    by blast
qed

theorem create_repository_default_organization_untouched_witness:
  "subscript (example_payload False) ''full_name'' = Return (JStr ''rtfd/docs'')
   \<and> linked_repository \<in> set (repositories linked_world)
   \<and> repo_matches example_self (JStr ''rtfd/docs'') linked_repository
   \<and> repo_organization linked_repository = Some 7
   \<and> create_repository example_self (example_payload False) ''public'' None linked_world
       = (write_log DEBUG ''Not importing %s because mismatched orgs'' [ArgJson (JStr ''docs'')]
            linked_world, Return None)"
  using create_repository_default_organization_untouched
    [of "example_payload False" "JStr ''rtfd/docs''" linked_repository linked_world
        example_self 7 "''public''" "JStr ''docs''"]
  by (simp add: example_facts)

section \<open>Properties of setup_webhook\<close>






section \<open>Properties of get_token_for_project\<close>

lemma scan_users_last:
  "scan_users table provider us token =
     (case rev (users_with_token table provider us) of
        [] \<Rightarrow> token
      | u # _ \<Rightarrow> token_of table provider u)"
proof (induction us arbitrary: token)
  case Nil
  show ?case by (simp add: users_with_token_def)
next
  case (Cons u us)
  show ?case
  proof (cases "filter (\<lambda>t. fst t = u \<and> fst (snd t) = provider) table")
    case Nil
    then show ?thesis using Cons.IH [of token] by (simp add: users_with_token_def)
  next
    case (Cons t ts)
    then show ?thesis using Cons.IH [of "JStr (snd (snd t))"]
      by (simp add: users_with_token_def token_of_def split: list.splits)
  qed
qed

text \<open>
  C8, as the code has it. \<open>get_token_for_project\<close> always returns and never raises; it
  returns \<open>None\<close> unless \<open>ALLOW_PRIVATE_REPOS\<close> is set and true; and when it scans the
  project's users (\<open>force_local\<close>, or \<open>DONT_HIT_DB\<close> false) it returns the first stored
  token of the last user that has a stored token of the provider, or \<open>None\<close> when no user
  has one: the loop has no \<open>break\<close>, so a later user's token replaces an earlier one's.
\<close>

theorem get_token_for_project_result:
  "(\<exists>token. snd (get_token_for_project env project force_local w) = Return token)
   \<and> (\<not> truthy (setting (ALLOW_PRIVATE_REPOS env) False)
        \<longrightarrow> get_token_for_project env project force_local w = (w, Return JNull))
   \<and> (truthy (setting (ALLOW_PRIVATE_REPOS env) False)
        \<and> (force_local \<or> \<not> truthy (setting (DONT_HIT_DB env) True))
        \<longrightarrow> get_token_for_project env project force_local w =
              (w, Return (case rev (users_with_token (social_tokens env) ''github''
                                      (project_users project)) of
                            [] \<Rightarrow> JNull
                          | u # _ \<Rightarrow> token_of (social_tokens env) ''github'' u)))"
  by (auto simp: get_token_for_project_def scan_users_last split: result.splits)

lemma example_tokens:
  "ALLOW_PRIVATE_REPOS (example_env ps) = Some (JBool True)"
  "DONT_HIT_DB (example_env ps) = Some (JBool False)"
  "social_tokens (example_env ps) = [(1, ''github'', ''token-of-1''), (2, ''github'', ''token-of-2'')]"
  "project_users (example_project u) = [1, 2]"
  by (simp_all add: example_env_def example_project_def)

theorem get_token_for_project_result_witness:
  "truthy (setting (ALLOW_PRIVATE_REPOS (example_env [])) False)
   \<and> \<not> truthy (setting (DONT_HIT_DB (example_env [])) True)
   \<and> get_token_for_project (example_env []) (example_project []) False empty_world
       = (empty_world, Return (JStr ''token-of-2''))
   \<and> get_token_for_project ((example_env []) \<lparr> ALLOW_PRIVATE_REPOS := None \<rparr>)
        (example_project []) False empty_world = (empty_world, Return JNull)"
  using get_token_for_project_result [of "example_env []" "example_project []" False empty_world]
    get_token_for_project_result
      [of "(example_env []) \<lparr> ALLOW_PRIVATE_REPOS := None \<rparr>" "example_project []" False empty_world]
  by (simp add: example_tokens setting_def users_with_token_def token_of_def)

text \<open>
  C8, as the specification states it ("returns the first match found"), fails for a
  project with two users that each have a stored token: the first match is the token of
  user 1, the call returns the token of user 2.
\<close>

theorem get_token_for_project_first_match_counterexample:
  "first_match (social_tokens (example_env [])) ''github'' (project_users (example_project []))
     = JStr ''token-of-1''
   \<and> snd (get_token_for_project (example_env []) (example_project []) False empty_world)
     = Return (JStr ''token-of-2'')"
  by (simp add: get_token_for_project_def example_tokens setting_def
        first_match_def users_with_token_def token_of_def)

section \<open>Properties of paginate\<close>

lemma paginate_last:
  assumes "session_get env (JStr url) = Return resp" and "body resp = Some j"
      and "next_link resp = None \<or> next_link resp = Some []"
  shows "paginate env url w = Some (request (JStr url) w, Return j)"
  using assms by (subst paginate.simps) (auto simp: resp_json_def)

lemma paginate_next:
  assumes "session_get env (JStr url) = Return resp" and "body resp = Some (JList xs)"
      and "next_link resp = Some next_url" and "next_url \<noteq> []"
  shows "paginate env url w =
           Option.bind (paginate env next_url (request (JStr url) w))
             (\<lambda>(w2, r). Some (w2, rbind r (\<lambda>more. rbind (py_iter more)
                                  (\<lambda>ys. Return (JList (xs @ ys))))))"
  using assms by (subst paginate.simps) (simp add: resp_json_def)

text \<open>
  C4. When the pages \<open>ps\<close> are reachable from \<open>url\<close> by following the next links (each a
  JSON array, the last one naming no next page), \<open>paginate\<close> returns, and its result is
  the concatenation of the pages' items in order; it has made one request for each page
  and has changed neither table.
\<close>

theorem paginate_concat:
  "pages_from env url ps \<Longrightarrow>
     \<exists>w'. paginate env url w = Some (w', Return (JList (concat ps)))
          \<and> length (requests w') = length (requests w) + length ps
          \<and> repositories w' = repositories w \<and> organizations w' = organizations w"
proof (induction ps arbitrary: url w)
  case Nil
  then show ?case by simp
next
  case (Cons p ps)
  from Cons.prems obtain resp where
    g: "session_get env (JStr url) = Return resp" and b: "body resp = Some (JList p)"
    and n: "case next_link resp of None \<Rightarrow> ps = []
            | Some next_url \<Rightarrow> if next_url = [] then ps = []
                                else ps \<noteq> [] \<and> pages_from env next_url ps"
    by (auto split: result.splits)
  show ?case
  proof (cases "next_link resp = None \<or> next_link resp = Some []")
    case True
    then have "ps = []" using n by auto
    then show ?thesis using paginate_last [OF g b True] by (simp add: request_def)
  next
    case False
    then obtain next_url where
      nl: "next_link resp = Some next_url" and ne: "next_url \<noteq> []" by auto
    then have "pages_from env next_url ps" using n by simp
    from Cons.IH [OF this, of "request (JStr url) w"] obtain w' where
      r: "paginate env next_url (request (JStr url) w) = Some (w', Return (JList (concat ps)))"
      and l: "length (requests w') = length (requests (request (JStr url) w)) + length ps"
      and t: "repositories w' = repositories (request (JStr url) w)"
             "organizations w' = organizations (request (JStr url) w)"
      by blast
    show ?thesis
      using paginate_next [OF g b nl ne, of w] r l t
      by (simp add: rbind_def request_def)
  qed
qed

lemma example_get:
  "session_get (example_env ps) (JStr u) =
     (case map_of ps u of None \<Rightarrow> Raise RequestException
      | Some (b, n) \<Rightarrow> Return (example_response b n))"
  by (simp add: example_env_def)

lemma example_response_simps:
  "body (example_response b n) = b"
  "next_link (example_response b n) = (if n = [] then None else Some n)"
  by (simp_all add: example_response_def next_link_def)

theorem paginate_concat_witness:
  "pages_from (example_env two_pages) ''https://api.github.com/user/repos?per_page=100''
     [[JInt 1, JInt 2], [JInt 3]]
   \<and> map_option snd (paginate (example_env two_pages)
        ''https://api.github.com/user/repos?per_page=100'' empty_world)
      = Some (Return (JList [JInt 1, JInt 2, JInt 3]))"
proof -
  have p: "pages_from (example_env two_pages) ''https://api.github.com/user/repos?per_page=100''
     [[JInt 1, JInt 2], [JInt 3]]"
    by (simp add: example_get example_response_simps two_pages_def)
  show ?thesis using p paginate_concat [OF p, of empty_world] by auto
qed

section \<open>Properties of sync\<close>

lemma sync_repositories_loop_error:
  assumes "paginate env ''https://api.github.com/user/repos?per_page=100'' w = Some (w1, Return repos)"
      and "import_repositories self repos (DEFAULT_PRIVACY_LEVEL env) None w1 = (w2, Raise e)"
      and "e = TypeError \<or> e = ValueError"
  shows "sync_repositories env self w =
           Some (write_log ERROR ''Error syncing GitHub repositories: %s'' [ArgExn e] w2,
                 Raise (Exception
                   ''Could not sync your GitHub repositories, try reconnecting your account''))"
  using assms by (auto simp: sync_repositories_def reconnect_def)

lemma paginate_not_json:
  assumes "session_get env (JStr url) = Return resp" and "body resp = None"
  shows "paginate env url w = Some (request (JStr url) w, Raise ValueError)"
  using assms by (subst paginate.simps) (simp add: resp_json_def)

text \<open>
  C7. When the repository listing answers with a body that is not JSON, \<open>resp.json()\<close>
  raises ValueError inside \<open>paginate\<close>, which \<open>sync_repositories\<close> calls before its
  \<open>try\<close>: the ValueError leaves \<open>sync_repositories\<close> as it is, nothing is logged, and no
  reconnect error is raised. \<open>sync_organizations\<close> calls \<open>paginate\<close> inside its \<open>try\<close>
  and turns the same failure into the logged reconnect error.
\<close>

theorem sync_repositories_value_error_escapes:
  "sync_repositories (example_env not_json_pages) example_self empty_world =
     Some (request (JStr ''https://api.github.com/user/repos?per_page=100'') empty_world,
           Raise ValueError)
   \<and> sync_organizations (example_env not_json_pages) example_self empty_world =
     Some (write_log ERROR ''Error syncing GitHub organizations: %s'' [ArgExn ValueError]
             (request (JStr ''https://api.github.com/user/orgs'') empty_world),
           Raise (Exception
             ''Could not sync your GitHub organizations, try reconnecting your account''))"
proof -
  have r: "paginate (example_env not_json_pages)
             ''https://api.github.com/user/repos?per_page=100'' w
           = Some (request (JStr ''https://api.github.com/user/repos?per_page=100'') w,
                   Raise ValueError)" for w
    by (rule paginate_not_json [where resp = "example_response None []"])
       (simp_all add: example_get example_response_simps not_json_pages_def)
  have o: "paginate (example_env not_json_pages) ''https://api.github.com/user/orgs'' w
           = Some (request (JStr ''https://api.github.com/user/orgs'') w, Raise ValueError)" for w
    by (rule paginate_not_json [where resp = "example_response None []"])
       (simp_all add: example_get example_response_simps not_json_pages_def)
  show ?thesis
    by (simp add: sync_repositories_def sync_organizations_def r o reconnect_def)
qed

lemma bad_credentials_repositories:
  "sync_repositories (example_env bad_credentials_pages) example_self empty_world =
     Some (write_log ERROR ''Error syncing GitHub repositories: %s'' [ArgExn TypeError]
             (request (JStr ''https://api.github.com/user/repos?per_page=100'') empty_world),
           Raise (Exception
             ''Could not sync your GitHub repositories, try reconnecting your account''))"
proof -
  have p: "paginate (example_env bad_credentials_pages)
             ''https://api.github.com/user/repos?per_page=100'' empty_world
           = Some (request (JStr ''https://api.github.com/user/repos?per_page=100'') empty_world,
                   Return (JDict [(''message'', JStr ''Bad credentials'')]))"
    by (rule paginate_last
          [where resp = "example_response (Some (JDict [(''message'', JStr ''Bad credentials'')])) []"])
       (simp_all add: example_get example_response_simps bad_credentials_pages_def)
  have d: "DEFAULT_PRIVACY_LEVEL (example_env ps) = ''public''" for ps
    by (simp add: example_env_def)
  have i: "import_repositories example_self (JDict [(''message'', JStr ''Bad credentials'')])
             ''public'' None w = (w, Raise TypeError)" for w
    by (simp add: import_repositories_def create_repository_def visible_def subscript_def
          rbind_def)
  show ?thesis
    by (rule sync_repositories_loop_error [OF p]) (simp_all add: d i)
qed

text \<open>
  C5, as the specification states it (organizations are still attempted when the
  repository stage failed), fails: with a repository listing that is an error object the
  repository stage raises the reconnect error, \<open>sync\<close> ends with that error, and the only
  request made is the one for the repository listing, although \<open>sync_organizations\<close> on
  its own would have requested the organization listing and returned.
\<close>

theorem sync_aborts_counterexample:
  "sync (example_env bad_credentials_pages) example_self empty_world =
     Some (write_log ERROR ''Error syncing GitHub repositories: %s'' [ArgExn TypeError]
             (request (JStr ''https://api.github.com/user/repos?per_page=100'') empty_world),
           Raise (Exception
             ''Could not sync your GitHub repositories, try reconnecting your account''))
   \<and> requests (write_log ERROR ''Error syncing GitHub repositories: %s'' [ArgExn TypeError]
             (request (JStr ''https://api.github.com/user/repos?per_page=100'') empty_world))
       = [JStr ''https://api.github.com/user/repos?per_page=100'']
   \<and> sync_organizations (example_env bad_credentials_pages) example_self empty_world =
     Some (request (JStr ''https://api.github.com/user/orgs'') empty_world, Return ())"
proof -
  have o: "paginate (example_env bad_credentials_pages) ''https://api.github.com/user/orgs'' w
           = Some (request (JStr ''https://api.github.com/user/orgs'') w, Return (JList []))" for w
    by (rule paginate_last [where resp = "example_response (Some (JList [])) []"])
       (simp_all add: example_get example_response_simps bad_credentials_pages_def)
  have s: "sync (example_env bad_credentials_pages) example_self empty_world =
     Some (write_log ERROR ''Error syncing GitHub repositories: %s'' [ArgExn TypeError]
             (request (JStr ''https://api.github.com/user/repos?per_page=100'') empty_world),
           Raise (Exception
             ''Could not sync your GitHub repositories, try reconnecting your account''))"
    by (simp add: sync_def bad_credentials_repositories)
  have g: "sync_organizations (example_env bad_credentials_pages) example_self empty_world =
     Some (request (JStr ''https://api.github.com/user/orgs'') empty_world, Return ())"
    by (simp add: sync_organizations_def o reconnect_def)
  show ?thesis
    by (simp only: s g) (simp add: write_log_def request_def empty_world_def)
qed

text \<open>
  C5, as the code has it. \<open>sync\<close> runs \<open>sync_repositories\<close> first; when that raises,
  \<open>sync\<close> raises the same exception from the same state and \<open>sync_organizations\<close> is not
  run; when it returns, the result of \<open>sync\<close> is that of \<open>sync_organizations\<close> run from
  the state \<open>sync_repositories\<close> left.
\<close>

theorem sync_sequential:
  "(sync_repositories env self w = None \<longrightarrow> sync env self w = None)
   \<and> (\<forall>w1 e. sync_repositories env self w = Some (w1, Raise e)
        \<longrightarrow> sync env self w = Some (w1, Raise e))
   \<and> (\<forall>w1 u. sync_repositories env self w = Some (w1, Return u)
        \<longrightarrow> sync env self w = sync_organizations env self w1)"
  by (simp add: sync_def)

theorem sync_sequential_witness:
  "sync_repositories (example_env not_json_pages) example_self empty_world =
     Some (request (JStr ''https://api.github.com/user/repos?per_page=100'') empty_world,
           Raise ValueError)
   \<and> sync (example_env not_json_pages) example_self empty_world =
     Some (request (JStr ''https://api.github.com/user/repos?per_page=100'') empty_world,
           Raise ValueError)"
proof -
  have r: "paginate (example_env not_json_pages)
             ''https://api.github.com/user/repos?per_page=100'' w
           = Some (request (JStr ''https://api.github.com/user/repos?per_page=100'') w,
                   Raise ValueError)" for w
    by (rule paginate_not_json [where resp = "example_response None []"])
       (simp_all add: example_get example_response_simps not_json_pages_def)
  have s: "sync_repositories (example_env not_json_pages) example_self empty_world =
     Some (request (JStr ''https://api.github.com/user/repos?per_page=100'') empty_world,
           Raise ValueError)"
    by (simp add: sync_repositories_def r)
  show ?thesis
    using s sync_sequential [of "example_env not_json_pages" example_self empty_world]
    by simp
qed

section \<open>The visibility filter of create_repository\<close>

lemma rbind_simps [simp]:
  "rbind (Return x) f = f x"
  "rbind (Raise e) f = Raise e"
  by (simp_all add: rbind_def)

lemma mismatched_orgs_new [simp]:
  "\<not> mismatched_orgs (new_repository self fn rs) organization"
  by (simp add: mismatched_orgs_def new_repository_def)

lemma create_repository_new:
  "visible payload privacy = Return True \<Longrightarrow> subscript payload ''full_name'' = Return fn \<Longrightarrow>
   get_repository self fn (repositories w) = Return None \<Longrightarrow>
   create_repository self payload privacy organization w =
     (case assign_fields self payload (map_option org_pk organization)
             (new_repository self fn (repositories w)) of
        Raise e \<Rightarrow>
          (w\<lparr>repositories := repositories w @ [new_repository self fn (repositories w)]\<rparr>,
           Raise e)
      | Return repo' \<Rightarrow>
          (w\<lparr>repositories := save_repository repo'
                (repositories w @ [new_repository self fn (repositories w)])\<rparr>,
           Return (Some repo')))"
  by (simp add: create_repository_def Let_def split: result.splits)

lemma complete_payload_subscript:
  assumes "complete_payload payload"
      and "k \<in> {''full_name'', ''name'', ''description'', ''ssh_url'', ''html_url'', ''private'',
                 ''clone_url''}"
  obtains v where "subscript payload k = Return v"
  using assms by (cases "subscript payload k") (auto simp: complete_payload_def)

lemma complete_payload_get:
  assumes "complete_payload payload" and "k \<in> {''permissions'', ''owner''}"
  obtains v where "rbind (dict_get payload k (JDict [])) (\<lambda>d. dict_get d k' dflt) = Return v"
proof -
  from assms obtain kvs where "dict_get payload k (JDict []) = Return (JDict kvs)"
    by (auto simp: complete_payload_def split: result.splits json.splits)
  then have "rbind (dict_get payload k (JDict [])) (\<lambda>d. dict_get d k' dflt)
             = (case map_of kvs k' of None \<Rightarrow> Return dflt | Some v \<Rightarrow> Return v)"
    by (simp add: rbind_def dict_get_def)
  then show ?thesis using that by (cases "map_of kvs k'") auto
qed

lemma complete_payload_assign:
  assumes c: "complete_payload payload"
  obtains r where "assign_fields self payload organization repo = Return r"
proof -
  obtain n where n: "subscript payload ''name'' = Return n"
    using c by (rule complete_payload_subscript [where k = "''name''"]) simp
  obtain d where d: "subscript payload ''description'' = Return d"
    using c by (rule complete_payload_subscript [where k = "''description''"]) simp
  obtain s where s: "subscript payload ''ssh_url'' = Return s"
    using c by (rule complete_payload_subscript [where k = "''ssh_url''"]) simp
  obtain h where h: "subscript payload ''html_url'' = Return h"
    using c by (rule complete_payload_subscript [where k = "''html_url''"]) simp
  obtain p where p: "subscript payload ''private'' = Return p"
    using c by (rule complete_payload_subscript [where k = "''private''"]) simp
  obtain cl where cl: "subscript payload ''clone_url'' = Return cl"
    using c by (rule complete_payload_subscript [where k = "''clone_url''"]) simp
  obtain a where a: "rbind (dict_get payload ''permissions'' (JDict []))
                       (\<lambda>ps. dict_get ps ''admin'' (JBool False)) = Return a"
    using c by (rule complete_payload_get [where k = "''permissions''"]) simp
  obtain av where av: "rbind (dict_get payload ''owner'' (JDict []))
                         (\<lambda>ow. dict_get ow ''avatar_url'' JNull) = Return av"
    using c by (rule complete_payload_get [where k = "''owner''"]) simp
  have "assign_fields self payload organization repo =
          Return (repo\<lparr> repo_organization := organization, repo_name := n,
                    repo_description := d, repo_ssh_url := s,
                    repo_html_url := h, repo_private := p,
                    repo_clone_url := (if truthy p then s else cl), repo_admin := a,
                    repo_vcs := ''git'', repo_account := account self,
                    repo_avatar_url := av, repo_json := payload \<rparr>)"
    by (simp add: assign_fields_def n d s h p cl a av)
  then show ?thesis using that by blast
qed

lemma complete_payload_visible:
  assumes "complete_payload payload"
  shows "visible payload privacy =
           Return (privacy = ''private'' \<or>
                   (subscript payload ''private'' = Return (JBool False) \<and> privacy = ''public''))"
proof -
  obtain p where "subscript payload ''private'' = Return p"
    using assms by (rule complete_payload_subscript [where k = "''private''"]) simp
  then show ?thesis by (simp add: visible_def rbind_def)
qed


lemma length_filter_le_1:
  "length xs \<le> 1 \<Longrightarrow> xs = [] \<or> (\<exists>x. xs = [x])"
  by (cases xs) auto

text \<open>
  C1, as the code has it. For a complete payload and a table with at most one record for
  the payload's full name, the user and the account: \<open>create_repository\<close> returns a
  record, saved in the table, exactly when the requested privacy is "private" or the
  payload's private flag is \<open>False\<close> and the requested privacy is "public", and no stored
  record for the key is linked to an organization other than the one given. In every
  other case it returns \<open>None\<close> and both tables are as before.
\<close>

theorem create_repository_persists_iff:
  assumes c: "complete_payload payload"
      and fn: "subscript payload ''full_name'' = Return fn"
      and u: "length (filter (repo_matches self fn) (repositories w)) \<le> 1"
  shows "((\<exists>r. snd (create_repository self payload privacy organization w) = Return (Some r)
             \<and> r \<in> set (repositories (fst (create_repository self payload privacy organization w))))
          \<longleftrightarrow> (privacy = ''private'' \<or>
                 (subscript payload ''private'' = Return (JBool False) \<and> privacy = ''public''))
               \<and> \<not> (\<exists>r \<in> set (repositories w).
                        repo_matches self fn r \<and> mismatched_orgs r organization))
       \<and> (\<not> ((privacy = ''private'' \<or>
                 (subscript payload ''private'' = Return (JBool False) \<and> privacy = ''public''))
               \<and> \<not> (\<exists>r \<in> set (repositories w).
                        repo_matches self fn r \<and> mismatched_orgs r organization))
           \<longrightarrow> snd (create_repository self payload privacy organization w) = Return None
               \<and> repositories (fst (create_repository self payload privacy organization w))
                   = repositories w
               \<and> organizations (fst (create_repository self payload privacy organization w))
                   = organizations w)"
    (is "(?persisted \<longleftrightarrow> ?vis \<and> \<not> ?conflict) \<and> (\<not> (?vis \<and> \<not> ?conflict) \<longrightarrow> ?skipped)")
proof -
  obtain n where n: "subscript payload ''name'' = Return n"
    using c by (rule complete_payload_subscript [where k = "''name''"]) simp
  have v: "visible payload privacy = Return ?vis"
    using c by (rule complete_payload_visible)
  show ?thesis
  proof (cases ?vis)
    case False
    then have "visible payload privacy = Return False" using v by simp
    then have "create_repository self payload privacy organization w =
                 (write_log DEBUG ''Not importing %s because mismatched type'' [ArgJson n] w,
                  Return None)"
      by (simp add: create_repository_hidden n)
    then show ?thesis using False by (auto simp: write_log_def)
  next
    case True
    then have vt: "visible payload privacy = Return True" using v by simp
    from length_filter_le_1 [OF u] show ?thesis
    proof
      assume e: "filter (repo_matches self fn) (repositories w) = []"
      then have nc: "\<not> ?conflict" by (auto simp: filter_empty_conv)
      have g: "get_repository self fn (repositories w) = Return None"
        using e by (simp add: get_repository_def)
      obtain r where a: "assign_fields self payload (map_option org_pk organization)
                           (new_repository self fn (repositories w)) = Return r"
        using c by (rule complete_payload_assign)
      have "repo_pk r = repo_pk (new_repository self fn (repositories w))"
        using assign_fields_Return(1) [OF a] .
      then have "r \<in> set (save_repository r
                    (repositories w @ [new_repository self fn (repositories w)]))"
        by (intro save_repository_mem) simp
      then have ?persisted
        by (simp add: create_repository_new [OF vt fn g] a)
      then show ?thesis using True nc by blast
    next
      assume "\<exists>x. filter (repo_matches self fn) (repositories w) = [x]"
      then obtain r0 where f: "filter (repo_matches self fn) (repositories w) = [r0]" by blast
      have g: "get_repository self fn (repositories w) = Return (Some r0)"
        using f by (simp add: get_repository_def)
      have r0: "r0 \<in> set (repositories w)" "repo_matches self fn r0"
        using filter_single_mem [OF f] by simp_all
      have cf: "?conflict \<longleftrightarrow> mismatched_orgs r0 organization"
      proof
        assume ?conflict
        then obtain r where "r \<in> set (repositories w)" "repo_matches self fn r"
          "mismatched_orgs r organization" by blast
        moreover from this have "r \<in> set (filter (repo_matches self fn) (repositories w))"
          by simp
        ultimately show "mismatched_orgs r0 organization" using f by simp
      next
        assume "mismatched_orgs r0 organization"
        then show ?conflict using r0 by blast
      qed
      show ?thesis
      proof (cases "mismatched_orgs r0 organization")
        case m: True
        have "create_repository self payload privacy organization w =
                (write_log DEBUG ''Not importing %s because mismatched orgs'' [ArgJson n] w,
                 Return None)"
          using fn f m n vt by (rule create_repository_conflict_None)
        then show ?thesis using cf m by (simp add: write_log_def)
      next
        case m: False
        obtain r where a: "assign_fields self payload (map_option org_pk organization) r0
                           = Return r"
          using c by (rule complete_payload_assign)
        have "repo_pk r = repo_pk r0" using assign_fields_Return(1) [OF a] .
        then have "r \<in> set (save_repository r (repositories w))"
          using r0(1) by (intro save_repository_mem) force
        then have ?persisted
          by (simp add: create_repository_found [OF vt fn g] m a)
        then show ?thesis using True cf m by blast
      qed
    qed
  qed
qed

lemma empty_world_tables:
  "repositories empty_world = []" "organizations empty_world = []"
  by (simp_all add: empty_world_def)

lemma example_complete: "complete_payload (example_payload p)"
  by (simp add: complete_payload_def example_payload_def subscript_def dict_get_def)

theorem create_repository_persists_iff_witness:
  "complete_payload (example_payload False)
   \<and> subscript (example_payload False) ''full_name'' = Return (JStr ''rtfd/docs'')
   \<and> length (filter (repo_matches example_self (JStr ''rtfd/docs'')) (repositories empty_world)) \<le> 1
   \<and> create_repository example_self (example_payload False) ''public'' None empty_world =
       (empty_world\<lparr>repositories := [example_stored False]\<rparr>, Return (Some (example_stored False)))
   \<and> snd (create_repository example_self (example_payload True) ''public'' None empty_world)
       = Return None"
  using create_repository_persists_iff
      [of "example_payload True" "JStr ''rtfd/docs''" example_self empty_world "''public''" None]
    example_complete [of True] example_complete [of False] empty_world_tables
  by (simp add: example_facts example_create)

text \<open>
  C1, as the specification states it (a record is persisted whenever the visibility
  condition holds), fails: a public payload requested with privacy "public" whose stored
  record is linked to an organization is not saved when the call names no organization.
\<close>

theorem create_repository_visible_conflict_counterexample:
  "(''public'' = ''private'' \<or>
      (subscript (example_payload False) ''private'' = Return (JBool False)
       \<and> ''public'' = ''public''))
   \<and> create_repository example_self (example_payload False) ''public'' None linked_world =
       (write_log DEBUG ''Not importing %s because mismatched orgs'' [ArgJson (JStr ''docs'')]
          linked_world, Return None)
   \<and> repositories (write_log DEBUG ''Not importing %s because mismatched orgs''
                      [ArgJson (JStr ''docs'')] linked_world) = repositories linked_world"
proof -
  have "create_repository example_self (example_payload False) ''public'' None linked_world =
       (write_log DEBUG ''Not importing %s because mismatched orgs'' [ArgJson (JStr ''docs'')]
          linked_world, Return None)"
    by (rule create_repository_conflict_None [where fn = "JStr ''rtfd/docs''"
              and r = linked_repository])
       (simp_all add: example_facts mismatched_orgs_def)
  then show ?thesis by (simp add: example_facts write_log_def)
qed

section \<open>Upserts\<close>





lemma replace_keys: "map key (map (\<lambda>x. if key x = key x1 then x1 else x) xs) = map key xs"
  by simp

lemma new_repository_simps [simp]:
  "repo_pk (new_repository self fn rs) = fresh_pk (map repo_pk rs)"
  "repo_matches self fn (new_repository self fn rs)"
  by (simp_all add: new_repository_def repo_matches_def)














lemma save_organization_tables [simp]:
  "length (save_organization orga os) = length os"
  "map org_pk (save_organization orga os) = map org_pk os"
  by (simp_all add: save_organization_def)










end
